theory Spec2Isabelle
  imports Complex_Main
begin

section \<open>Values shared by both backends\<close>

text \<open>
  JavaScript numbers are modelled by \<^typ>\<open>real\<close>: every finite double is a real
  number, and the operations modelled below only compare, negate, add and truncate
  them. \<open>NaN\<close> and the infinities are outside the model.

  A JavaScript exception is a value. \<open>TypeError\<close> is what the engine raises on a
  property read from \<open>null\<close> or \<open>undefined\<close>, \<open>ReferenceError\<close> what it raises
  when an identifier with no binding is evaluated, and \<open>Error msg\<close> is
  \<^verbatim>\<open>throw new Error(msg)\<close>. \<open>Prototype_replaced\<close> is not an exception: it marks
  the one call that the model does not follow, an assignment that makes an array the
  prototype of a table (see \<open>setUniform\<close>).
\<close>

datatype js_error = TypeError | ReferenceError | Error string | Prototype_replaced

section \<open>The shader program (GLShader)\<close>

text \<open>
  The value passed to \<^verbatim>\<open>setUniform\<close>, by what the function tests of it:
  \<^verbatim>\<open>undefined\<close>, \<^verbatim>\<open>null\<close>, a number, a flat numeric array (an object without a
  \<^verbatim>\<open>toArray\<close> function), or a value object exposing \<^verbatim>\<open>toArray()\<close> (a matrix or
  a vector), which carries the flat array that \<^verbatim>\<open>toArray()\<close> returns.
\<close>

datatype uvalue =
    Undefined
  | Null
  | Scalar real
  | FlatArray "real list"
  | ArrayConvertible "real list"

text \<open>The calls the shader makes on its WebGL context, in the order issued.\<close>

datatype gl_call = UseProgram nat | DeleteProgram nat

text \<open>
  The attribute and uniform tables are JavaScript objects used as dictionaries. A
  property read \<^verbatim>\<open>table[name]\<close> finds the table's own property of that name and
  otherwise goes on through the prototype chain, so it also finds the members that the
  chain provides: for an object created as \<^verbatim>\<open>{}\<close> those of
  \<^verbatim>\<open>Object.prototype\<close>, such as \<^verbatim>\<open>toString\<close> and \<^verbatim>\<open>constructor\<close>. A table
  is its own properties together with the names that its prototype chain provides.
\<close>

record 'a js_object =
  own :: "string \<rightharpoonup> 'a"
  inherited :: "string set"

text \<open>
  What a property read yields when it is not \<^verbatim>\<open>undefined\<close>: the table's own value,
  or the member that the prototype chain provides under the name, which is not one of the
  table's values (for \<^verbatim>\<open>toString\<close> it is the function
  \<^verbatim>\<open>Object.prototype.toString\<close>).
\<close>

datatype 'a js_value = Value 'a | Inherited string

definition get_property :: "'a js_object \<Rightarrow> string \<Rightarrow> 'a js_value option" where
  "get_property obj name =
     (case own obj name of
        Some v \<Rightarrow> Some (Value v)
      | None \<Rightarrow> if name \<in> inherited obj then Some (Inherited name) else None)"

text \<open>The property names of \<^verbatim>\<open>Object.prototype\<close>.\<close>

definition Object_prototype :: "string set" where
  "Object_prototype =
     {''constructor'', ''hasOwnProperty'', ''isPrototypeOf'', ''propertyIsEnumerable'',
      ''toLocaleString'', ''toString'', ''valueOf'', ''__proto__'',
      ''__defineGetter__'', ''__defineSetter__'', ''__lookupGetter__'', ''__lookupSetter__''}"

text \<open>An object created as \<^verbatim>\<open>{}\<close> and given the own properties \<open>properties\<close>.\<close>

definition plain_object :: "(string \<rightharpoonup> 'a) \<Rightarrow> 'a js_object" where
  "plain_object properties = \<lparr> own = properties, inherited = Object_prototype \<rparr>"

text \<open>
  The fields of a \<^verbatim>\<open>GLShader\<close>. The fields that \<^verbatim>\<open>destroy()\<close> sets to
  \<^verbatim>\<open>null\<close> are options, \<open>None\<close> being \<^verbatim>\<open>null\<close>.
\<close>

record shader =
  gl :: "gl_call list"
  vertex :: "string option"
  fragment :: "string option"
  attributes :: "int js_object option"
  program :: nat
  uniforms :: "uvalue js_object option"

text \<open>
  The constructor. The sources it stores are the results of
  \<^verbatim>\<open>setPrecision(minify(...), ...)\<close>, the tables are the results of
  \<^verbatim>\<open>extractAttributes\<close> and \<^verbatim>\<open>extractUniforms\<close>, and the program handle is the
  result of \<^verbatim>\<open>compileProgram\<close>; those helpers are not among the sources, so their
  results are arguments here. The constructor also subscribes \<^verbatim>\<open>destroy\<close> to the
  context-lost event; the event bus is outside the model, and \<^verbatim>\<open>destroy\<close> below is
  what the event runs.
\<close>

definition GLShader ::
  "gl_call list \<Rightarrow> string \<Rightarrow> string \<Rightarrow> int js_object \<Rightarrow> nat \<Rightarrow> uvalue js_object \<Rightarrow> shader" where
  "GLShader ctx vsrc fsrc attribute_table handle uniform_table =
     \<lparr> gl = ctx,
       vertex = Some vsrc,
       fragment = Some fsrc,
       attributes = Some attribute_table,
       program = handle,
       uniforms = Some uniform_table \<rparr>"

definition bind :: "shader \<Rightarrow> shader" where
  "bind s = s\<lparr>gl := gl s @ [UseProgram (program s)]\<rparr>"

text \<open>
  \<^verbatim>\<open>getAttribLocation(name)\<close>: \<^verbatim>\<open>this.attributes[name]\<close> raises a
  \<open>TypeError\<close> when \<^verbatim>\<open>this.attributes\<close> is \<^verbatim>\<open>null\<close>; otherwise the function
  returns what the property read found, and -1 when that is \<^verbatim>\<open>undefined\<close>.
\<close>

definition getAttribLocation :: "string \<Rightarrow> shader \<Rightarrow> js_error + int js_value" where
  "getAttribLocation name s =
     (case attributes s of
        None \<Rightarrow> Inl TypeError
      | Some table \<Rightarrow>
          (case get_property table name of
             Some attr \<Rightarrow> Inr attr
           | None \<Rightarrow> Inr (Value (- 1))))"

text \<open>
  The message of the error that \<^verbatim>\<open>setUniform\<close> throws. The shader class defines no
  \<^verbatim>\<open>toString\<close>, so \<^verbatim>\<open>"" + this\<close> is \<^verbatim>\<open>[object Object]\<close>.
\<close>

definition undefined_uniform :: "string \<Rightarrow> js_error" where
  "undefined_uniform name =
     Error (''undefined ('' @ name @ '') uniform for shader [object Object]'')"

text \<open>
  The assignment \<^verbatim>\<open>table[name] = v\<close>. It sets the table's own property, but for
  the name \<^verbatim>\<open>__proto__\<close>, when the chain provides it and the table has no own
  property of that name: that assignment runs the setter of \<^verbatim>\<open>Object.prototype\<close>,
  which ignores a value that is neither an object nor \<^verbatim>\<open>null\<close>, empties the chain
  for \<^verbatim>\<open>null\<close>, and makes an object the table's prototype. What the chain provides
  after an array has become the prototype is a matter of the engine's array prototypes
  and is not modelled: that assignment ends the model's run with
  \<open>Prototype_replaced\<close>.
\<close>

definition assign :: "uvalue js_object \<Rightarrow> string \<Rightarrow> uvalue \<Rightarrow> js_error + uvalue js_object" where
  "assign table name v =
     (if name = ''__proto__'' \<and> own table name = None \<and> name \<in> inherited table then
        (case v of
           Undefined \<Rightarrow> Inr table
         | Scalar _ \<Rightarrow> Inr table
         | Null \<Rightarrow> Inr (table\<lparr>inherited := {}\<rparr>)
         | FlatArray _ \<Rightarrow> Inl Prototype_replaced
         | ArrayConvertible _ \<Rightarrow> Inl Prototype_replaced)
      else Inr (table\<lparr>own := (own table)(name \<mapsto> v)\<rparr>))"

text \<open>
  \<^verbatim>\<open>setUniform(name, value)\<close>. \<^verbatim>\<open>uniforms[name]\<close> raises a \<open>TypeError\<close> when
  \<^verbatim>\<open>this.uniforms\<close> is \<^verbatim>\<open>null\<close>. The test
  \<^verbatim>\<open>typeof uniforms[name] !== "undefined"\<close> fails when the property read finds
  nothing and when it finds an own property whose value is \<^verbatim>\<open>undefined\<close>. In the
  test \<^verbatim>\<open>typeof value === "object" && typeof value.toArray === "function"\<close> the
  first part holds for \<^verbatim>\<open>null\<close>, so the second raises a \<open>TypeError\<close> for it.
\<close>

definition setUniform :: "string \<Rightarrow> uvalue \<Rightarrow> shader \<Rightarrow> js_error + shader" where
  "setUniform name v s =
     (case uniforms s of
        None \<Rightarrow> Inl TypeError
      | Some table \<Rightarrow>
          if get_property table name \<noteq> None \<and> get_property table name \<noteq> Some (Value Undefined)
          then
            (case v of
               Null \<Rightarrow> Inl TypeError
             | ArrayConvertible flat \<Rightarrow>
                 (case assign table name (FlatArray flat) of
                    Inl stop \<Rightarrow> Inl stop
                  | Inr table' \<Rightarrow> Inr (s\<lparr>uniforms := Some table'\<rparr>))
             | _ \<Rightarrow>
                 (case assign table name v of
                    Inl stop \<Rightarrow> Inl stop
                  | Inr table' \<Rightarrow> Inr (s\<lparr>uniforms := Some table'\<rparr>)))
          else Inl (undefined_uniform name))"

definition destroy :: "shader \<Rightarrow> shader" where
  "destroy s =
     s\<lparr> uniforms := None,
        attributes := None,
        gl := gl s @ [DeleteProgram (program s)],
        vertex := None,
        fragment := None \<rparr>"

text \<open>
  The shader of the examples below: one attribute \<^verbatim>\<open>aPos\<close> at location 0 and one
  uniform \<^verbatim>\<open>uColor\<close>, each table an object created as \<^verbatim>\<open>{}\<close>.
\<close>

definition example_shader :: shader where
  "example_shader =
     GLShader [] ''void main() {}'' ''void main() {}''
       (plain_object [''aPos'' \<mapsto> 0]) 7
       (plain_object [''uColor'' \<mapsto> FlatArray [0, 0, 0, 0]])"

section \<open>The drawing surface (CanvasRenderingContext2D)\<close>

text \<open>
  The renderer draws through the browser's 2D context. The context is modelled by the
  calls and property writes made on it, in the order issued, together with the part of
  its state that the renderer reads back or that the properties below are about: the
  global alpha, the fill style, the compositing operation, the current path, and the
  stack of states that \<^verbatim>\<open>save()\<close> pushes and \<^verbatim>\<open>restore()\<close> pops.
\<close>

type_synonym point = "real \<times> real"

text \<open>An element with a size: a canvas, or an image to draw.\<close>

record element =
  element_id :: nat
  width :: real
  height :: real

text \<open>
  What is handed to the context's \<^verbatim>\<open>drawImage\<close>: the image itself, or the tinted
  variant that the texture cache returns for the image and a colour.
\<close>

datatype image_source = Untinted element | Tinted element "real \<times> real \<times> real"

datatype style = CssColor string | CanvasPattern nat

datatype ctx_op =
    Save
  | Restore
  | BeginPath
  | ClosePath
  | MoveTo real real
  | LineTo real real
  | BezierCurveTo real real real real real real
  | Arc real real real real real bool
  | RectPath real real real real
  | RoundRectPath real real real real real
  | Fill
  | Stroke
  | Clip
  | FillRect real real real real
  | StrokeRect real real real real
  | Translate real real
  | Transform real real real real real real
  | DrawImage image_source "real option" "real option" "real option" "real option"
      "real option" "real option" "real option" "real option"
  | SetFillStyle style
  | SetGlobalCompositeOperation string

record context2d =
  calls :: "ctx_op list"
  globalAlpha :: real
  fillStyle :: style
  globalCompositeOperation :: string
  path :: "ctx_op list"
  saved :: "(real \<times> style \<times> string) list"

text \<open>
  The effect of one call on the state of the context: \<^verbatim>\<open>save()\<close> pushes the
  drawing state, \<^verbatim>\<open>restore()\<close> pops it and does nothing on an empty stack,
  \<^verbatim>\<open>beginPath()\<close> empties the current path, the path-building calls extend it,
  and a property write sets the property. The current path is not part of the saved
  state.
\<close>

definition effect :: "ctx_op \<Rightarrow> context2d \<Rightarrow> context2d" where
  "effect op c =
     (case op of
        Save \<Rightarrow>
          c\<lparr>saved := (globalAlpha c, fillStyle c, globalCompositeOperation c) # saved c\<rparr>
      | Restore \<Rightarrow>
          (case saved c of
             [] \<Rightarrow> c
           | (a, f, g) # rest \<Rightarrow>
               c\<lparr>globalAlpha := a, fillStyle := f, globalCompositeOperation := g,
                 saved := rest\<rparr>)
      | BeginPath \<Rightarrow> c\<lparr>path := []\<rparr>
      | ClosePath \<Rightarrow> c\<lparr>path := path c @ [op]\<rparr>
      | MoveTo _ _ \<Rightarrow> c\<lparr>path := path c @ [op]\<rparr>
      | LineTo _ _ \<Rightarrow> c\<lparr>path := path c @ [op]\<rparr>
      | BezierCurveTo _ _ _ _ _ _ \<Rightarrow> c\<lparr>path := path c @ [op]\<rparr>
      | Arc _ _ _ _ _ _ \<Rightarrow> c\<lparr>path := path c @ [op]\<rparr>
      | RectPath _ _ _ _ \<Rightarrow> c\<lparr>path := path c @ [op]\<rparr>
      | RoundRectPath _ _ _ _ _ \<Rightarrow> c\<lparr>path := path c @ [op]\<rparr>
      | SetFillStyle st \<Rightarrow> c\<lparr>fillStyle := st\<rparr>
      | SetGlobalCompositeOperation g \<Rightarrow> c\<lparr>globalCompositeOperation := g\<rparr>
      | _ \<Rightarrow> c)"

definition perform :: "ctx_op \<Rightarrow> context2d \<Rightarrow> context2d" where
  "perform op c = (effect op c)\<lparr>calls := calls c @ [op]\<rparr>"

section \<open>The surface backend (CanvasRenderer)\<close>

record settings =
  doubleBuffering :: bool
  transparent :: bool
  subPixel :: bool

text \<open>
  The fields of the renderer that the functions below use. The two contexts are
  references into a store of contexts: without double buffering the constructor makes
  \<^verbatim>\<open>this.backBufferContext2D\<close> the very object \<^verbatim>\<open>this.context\<close>, so a write
  through one is seen through the other. \<^verbatim>\<open>currentScissor\<close>, \<^verbatim>\<open>currentTint\<close>,
  \<^verbatim>\<open>currentBlendMode\<close> and \<^verbatim>\<open>maskLevel\<close> are declared by the parent class
  \<^verbatim>\<open>Renderer\<close>, which is not among the sources: the scissor is the array of four
  numbers that the spec describes as \<open>(x, y, w, h)\<close>, the tint is the colour's
  \<^verbatim>\<open>toArray()\<close>, and the mask level is a counter that starts at 0.
\<close>

record renderer =
  settings :: settings
  "context" :: nat
  backBufferContext2D :: nat
  backBufferCanvas :: element
  surfaces :: "nat \<Rightarrow> context2d"
  currentBlendMode :: string
  currentScissor :: "real \<times> real \<times> real \<times> real"
  currentTint :: "real \<times> real \<times> real \<times> real"
  maskLevel :: nat

text \<open>A call that raises ends with the error and the state reached when it was raised.\<close>

type_synonym outcome = "(js_error \<times> renderer) + renderer"

definition getContext :: "renderer \<Rightarrow> nat" where
  "getContext r = backBufferContext2D r"

text \<open>One call, or a sequence of calls in order, on the context behind a reference.\<close>

definition invoke :: "nat \<Rightarrow> ctx_op \<Rightarrow> renderer \<Rightarrow> renderer" where
  "invoke ref op r = r\<lparr>surfaces := (surfaces r)(ref := perform op (surfaces r ref))\<rparr>"

primrec invoke_all :: "nat \<Rightarrow> ctx_op list \<Rightarrow> renderer \<Rightarrow> renderer" where
  "invoke_all ref [] r = r"
| "invoke_all ref (op # ops) r = invoke_all ref ops (invoke ref op r)"

text \<open>
  The conversion behind \<^verbatim>\<open>~~x\<close> and \<^verbatim>\<open>x |= 0\<close> (ECMAScript \<open>ToInt32\<close>): the
  fraction is dropped, towards zero, and the integer is reduced modulo \<open>2^32\<close> into
  the signed 32-bit range.
\<close>

definition ToInt32 :: "real \<Rightarrow> int" where
  "ToInt32 v =
     (let n = (if v < 0 then - \<lfloor>- v\<rfloor> else \<lfloor>v\<rfloor>);
          k = n mod 2 ^ 32
      in if 2 ^ 31 \<le> k then k - 2 ^ 32 else k)"


definition getGlobalAlpha :: "renderer \<Rightarrow> real" where
  "getGlobalAlpha r = globalAlpha (surfaces r (backBufferContext2D r))"

text \<open>
  The value of the expression \<^verbatim>\<open>1 / 255\<close> that every drawing primitive compares
  the global alpha with. JavaScript divides in double precision, so the value is the
  double nearest to 1/255, which is \<open>4521260802379792 / 2^60\<close>, a little less than
  1/255.
\<close>

definition one_255th :: real where
  "one_255th = 282578800148737 / 2 ^ 56"

definition setBlendMode :: "string option \<Rightarrow> nat option \<Rightarrow> renderer \<Rightarrow> renderer" where
  "setBlendMode mode_arg context_arg r =
     (let mode = (case mode_arg of None \<Rightarrow> ''normal'' | Some m \<Rightarrow> m);
          ctx = (case context_arg of None \<Rightarrow> getContext r | Some c \<Rightarrow> c);
          r1 = r\<lparr>currentBlendMode := mode\<rparr>;
          r2 = (if mode = ''screen'' then
                  invoke ctx (SetGlobalCompositeOperation ''screen'') r1
                else if mode = ''lighter'' \<or> mode = ''additive'' then
                  invoke ctx (SetGlobalCompositeOperation ''lighter'') r1
                else if mode = ''multiply'' then
                  invoke ctx (SetGlobalCompositeOperation ''multiply'') r1
                else
                  (invoke ctx (SetGlobalCompositeOperation ''source-over'') r1)
                    \<lparr>currentBlendMode := ''normal''\<rparr>)
      in if doubleBuffering (settings r2) \<and> transparent (settings r2) then
           invoke (context r2) (SetGlobalCompositeOperation ''copy'') r2
         else r2)"



text \<open>\<^verbatim>\<open>antiClockwise || false\<close> on an optional boolean argument.\<close>

definition or_false :: "bool option \<Rightarrow> bool" where
  "or_false a = (case a of None \<Rightarrow> False | Some b \<Rightarrow> b)"

definition strokeArc ::
  "real \<Rightarrow> real \<Rightarrow> real \<Rightarrow> real \<Rightarrow> real \<Rightarrow> bool option \<Rightarrow> bool \<Rightarrow> renderer \<Rightarrow> renderer" where
  "strokeArc x y rad start end_angle antiClockwise fill r =
     (if getGlobalAlpha r < one_255th then r
      else
        invoke_all (getContext r)
          [Translate x y,
           BeginPath,
           Arc 0 0 rad start end_angle (or_false antiClockwise),
           (if fill = True then Fill else Stroke),
           Translate (- x) (- y)] r)"

definition fillArc ::
  "real \<Rightarrow> real \<Rightarrow> real \<Rightarrow> real \<Rightarrow> real \<Rightarrow> bool option \<Rightarrow> renderer \<Rightarrow> renderer" where
  "fillArc x y rad start end_angle antiClockwise r =
     strokeArc x y rad start end_angle (Some (or_false antiClockwise)) True r"

definition strokeEllipse :: "real \<Rightarrow> real \<Rightarrow> real \<Rightarrow> real \<Rightarrow> bool \<Rightarrow> renderer \<Rightarrow> renderer" where
  "strokeEllipse x y w h fill r =
     (if getGlobalAlpha r < one_255th then r
      else
        let hw = w; hh = h;
            lx = x - hw; rx = x + hw;
            ty = y - hh; by = y + hh;
            xmagic = hw * 0.551784; ymagic = hh * 0.551784;
            xmin = x - xmagic; xmax = x + xmagic;
            ymin = y - ymagic; ymax = y + ymagic
        in invoke_all (getContext r)
             [BeginPath,
              MoveTo x ty,
              BezierCurveTo xmax ty rx ymin rx y,
              BezierCurveTo rx ymax xmax by x by,
              BezierCurveTo xmin by lx ymax lx y,
              BezierCurveTo lx ymin xmin ty x ty,
              (if fill = True then Fill else Stroke),
              ClosePath] r)"

definition fillEllipse :: "real \<Rightarrow> real \<Rightarrow> real \<Rightarrow> real \<Rightarrow> renderer \<Rightarrow> renderer" where
  "fillEllipse x y w h r = strokeEllipse x y w h True r"

definition strokeLine :: "real \<Rightarrow> real \<Rightarrow> real \<Rightarrow> real \<Rightarrow> renderer \<Rightarrow> renderer" where
  "strokeLine startX startY endX endY r =
     (if getGlobalAlpha r < one_255th then r
      else
        invoke_all (getContext r)
          [BeginPath, MoveTo startX startY, LineTo endX endY, Stroke] r)"

definition fillLine :: "real \<Rightarrow> real \<Rightarrow> real \<Rightarrow> real \<Rightarrow> renderer \<Rightarrow> renderer" where
  "fillLine startX startY endX endY r = strokeLine startX startY endX endY r"

definition translate :: "real \<Rightarrow> real \<Rightarrow> renderer \<Rightarrow> renderer" where
  "translate x y r =
     (if subPixel (settings r) = False then
        invoke (backBufferContext2D r)
          (Translate (of_int (ToInt32 x)) (of_int (ToInt32 y))) r
      else
        invoke (backBufferContext2D r) (Translate x y) r)"

text \<open>A polygon: its position and its vertices, relative to the position.\<close>

record polygon =
  pos :: point
  points :: "point list"

text \<open>
  \<^verbatim>\<open>strokePolygon\<close> reads \<^verbatim>\<open>poly.points[0].x\<close> after it has translated and begun
  the path: with no vertex that read raises a \<open>TypeError\<close>.
\<close>

definition strokePolygon :: "polygon \<Rightarrow> bool \<Rightarrow> renderer \<Rightarrow> outcome" where
  "strokePolygon poly fill r =
     (if getGlobalAlpha r < one_255th then Inr r
      else
        let ctx = getContext r;
            r1 = translate (fst (pos poly)) (snd (pos poly)) r;
            r2 = invoke ctx BeginPath r1
        in case points poly of
             [] \<Rightarrow> Inl (TypeError, r2)
           | first # rest \<Rightarrow>
               let r3 = invoke ctx (MoveTo (fst first) (snd first)) r2;
                   r4 = invoke_all ctx (map (\<lambda>point. LineTo (fst point) (snd point)) rest) r3;
                   r5 = invoke ctx (LineTo (fst first) (snd first)) r4;
                   r6 = invoke ctx (if fill = True then Fill else Stroke) r5;
                   r7 = invoke ctx ClosePath r6
               in Inr (translate (- fst (pos poly)) (- snd (pos poly)) r7))"

definition fillPolygon :: "polygon \<Rightarrow> renderer \<Rightarrow> outcome" where
  "fillPolygon poly r = strokePolygon poly True r"

definition strokeRect :: "real \<Rightarrow> real \<Rightarrow> real \<Rightarrow> real \<Rightarrow> bool \<Rightarrow> renderer \<Rightarrow> renderer" where
  "strokeRect x y w h fill r =
     (if getGlobalAlpha r < one_255th then r
      else
        invoke (getContext r) (if fill = True then FillRect x y w h else StrokeRect x y w h) r)"

definition fillRect :: "real \<Rightarrow> real \<Rightarrow> real \<Rightarrow> real \<Rightarrow> renderer \<Rightarrow> renderer" where
  "fillRect x y w h r = strokeRect x y w h True r"

definition strokeRoundRect ::
  "real \<Rightarrow> real \<Rightarrow> real \<Rightarrow> real \<Rightarrow> real \<Rightarrow> bool \<Rightarrow> renderer \<Rightarrow> renderer" where
  "strokeRoundRect x y w h rad fill r =
     (if getGlobalAlpha r < one_255th then r
      else
        invoke_all (getContext r)
          [BeginPath, RoundRectPath x y w h rad, (if fill = True then Fill else Stroke)] r)"

definition fillRoundRect :: "real \<Rightarrow> real \<Rightarrow> real \<Rightarrow> real \<Rightarrow> real \<Rightarrow> renderer \<Rightarrow> renderer" where
  "fillRoundRect x y w h rad r = strokeRoundRect x y w h rad True r"

text \<open>
  A 2D matrix is the array of nine numbers that \<^verbatim>\<open>toArray()\<close> returns;
  \<^verbatim>\<open>transform\<close> reads the entries 0, 1, 3, 4, 6 and 7.
\<close>

datatype matrix2d = Matrix2d real real real real real real real real real

fun transform :: "matrix2d \<Rightarrow> renderer \<Rightarrow> renderer" where
  "transform (Matrix2d m0 m1 m2 m3 m4 m5 m6 m7 m8) r =
     (let a = m0; b = m1; c = m3; d = m4; e = m6; f = m7;
          (e, f) = (if subPixel (settings r) = False then
                      (of_int (ToInt32 e), of_int (ToInt32 f))
                    else (e, f))
      in invoke (backBufferContext2D r) (Transform a b c d e f) r)"

definition clipRect :: "real \<Rightarrow> real \<Rightarrow> real \<Rightarrow> real \<Rightarrow> renderer \<Rightarrow> renderer" where
  "clipRect x y w h r =
     (let canvas = backBufferCanvas r in
      if x \<noteq> 0 \<or> y \<noteq> 0 \<or> w \<noteq> width canvas \<or> h \<noteq> height canvas then
        (case currentScissor r of (s0, s1, s2, s3) \<Rightarrow>
           if s0 \<noteq> x \<or> s1 \<noteq> y \<or> s2 \<noteq> w \<or> s3 \<noteq> h then
             (invoke_all (backBufferContext2D r) [BeginPath, RectPath x y w h, Clip] r)
               \<lparr>currentScissor := (x, y, w, h)\<rparr>
           else r)
      else r)"

text \<open>
  The shapes that \<^verbatim>\<open>setMask\<close> tells apart with \<^verbatim>\<open>instanceof\<close>, each with the
  properties the function reads: \<open>left top width height radius\<close> of a rounded
  rectangle, \<open>left top width height\<close> of a rectangle and of bounds, \<open>pos radiusV\<close>
  of an ellipse, and the position and vertices of any other shape (a polygon, a line).
  The tests are made in this order, so a rounded rectangle, which is also a rectangle,
  is a \<open>RoundRect\<close> here. The shape classes themselves are not among the sources.
\<close>

datatype shape =
    RoundRect real real real real real
  | Rect real real real real
  | Bounds real real real real
  | Ellipse point point
  | Polygon polygon

text \<open>
  The module imports \<^verbatim>\<open>Ellipse\<close>, \<^verbatim>\<open>RoundRect\<close> and \<^verbatim>\<open>Bounds\<close>, but it
  neither imports nor declares \<^verbatim>\<open>Rect\<close>: evaluating that identifier, as
  \<^verbatim>\<open>mask instanceof Rect\<close> does, raises a \<open>ReferenceError\<close>.
\<close>

definition Rect_identifier :: "js_error + unit" where
  "Rect_identifier = Inl ReferenceError"

text \<open>
  A branch that is reached only through the test
  \<^verbatim>\<open>mask instanceof Rect || mask instanceof Bounds\<close>, whose first operand evaluates
  \<^verbatim>\<open>Rect\<close>: the branch runs if that evaluation returns, and the call ends in the
  state \<open>r\<close> if it raises.
\<close>

definition after_Rect_test :: "renderer \<Rightarrow> outcome \<Rightarrow> outcome" where
  "after_Rect_test r branch =
     (case Rect_identifier of
        Inl failure \<Rightarrow> Inl (failure, r)
      | Inr _ \<Rightarrow> branch)"

text \<open>
  The chain of \<^verbatim>\<open>else if\<close> branches of \<^verbatim>\<open>setMask\<close> that trace a shape into the
  current path. A rounded rectangle is traced by the first branch; every other shape
  comes to the second test, and to its branch through it. The last branch reads
  \<^verbatim>\<open>mask.points[0].x\<close>, which raises a \<open>TypeError\<close> when the shape has no
  vertex.
\<close>

definition trace_mask :: "shape \<Rightarrow> nat \<Rightarrow> renderer \<Rightarrow> outcome" where
  "trace_mask mask_shape ctx r =
     (case mask_shape of
        RoundRect mask_left mask_top w h rad \<Rightarrow>
          Inr (invoke ctx (RoundRectPath mask_top mask_left w h rad) r)
      | Rect mask_left mask_top w h \<Rightarrow>
          after_Rect_test r (Inr (invoke ctx (RectPath mask_top mask_left w h) r))
      | Bounds mask_left mask_top w h \<Rightarrow>
          after_Rect_test r (Inr (invoke ctx (RectPath mask_top mask_left w h) r))
      | Ellipse position radiusV \<Rightarrow>
          after_Rect_test r
            (let x = fst position; y = snd position;
                 hw = fst radiusV; hh = snd radiusV;
                 lx = x - hw; rx = x + hw;
                 ty = y - hh; by = y + hh;
                 xmagic = hw * 0.551784; ymagic = hh * 0.551784;
                 xmin = x - xmagic; xmax = x + xmagic;
                 ymin = y - ymagic; ymax = y + ymagic
             in Inr (invoke_all ctx
                  [MoveTo x ty,
                   BezierCurveTo xmax ty rx ymin rx y,
                   BezierCurveTo rx ymax xmax by x by,
                   BezierCurveTo xmin by lx ymax lx y,
                   BezierCurveTo lx ymin xmin ty x ty] r))
      | Polygon poly \<Rightarrow>
          after_Rect_test r
            (let x = fst (pos poly); y = snd (pos poly)
             in case points poly of
                  [] \<Rightarrow> Inl (TypeError, r)
                | first # rest \<Rightarrow>
                    Inr (invoke_all ctx
                           (map (\<lambda>point. LineTo (x + fst point) (y + snd point)) rest)
                           (invoke ctx (MoveTo (x + fst first) (y + snd first)) r))))"

text \<open>
  \<^verbatim>\<open>setMask(mask, invert)\<close>. The shape is traced in the \<^verbatim>\<open>else\<close> part of the test
  \<^verbatim>\<open>this.maskLevel === 0\<close>, as the source has it.
\<close>

definition setMask :: "shape \<Rightarrow> bool \<Rightarrow> renderer \<Rightarrow> outcome" where
  "setMask mask_shape invert r =
     (let ctx = getContext r in
      case (if maskLevel r = 0 then Inr (invoke_all ctx [Save, BeginPath] r)
            else trace_mask mask_shape ctx r) of
        Inl failure \<Rightarrow> Inl failure
      | Inr r1 \<Rightarrow>
          let r2 = r1\<lparr>maskLevel := maskLevel r1 + 1\<rparr>
          in if invert = True then
               Inr (invoke_all ctx
                      [ClosePath, SetGlobalCompositeOperation ''destination-atop'', Fill] r2)
             else Inr (invoke ctx Clip r2))"

definition clearMask :: "renderer \<Rightarrow> renderer" where
  "clearMask r =
     (if maskLevel r > 0 then invoke (getContext r) Restore (r\<lparr>maskLevel := 0\<rparr>) else r)"

text \<open>The state of the renderer when a call has ended, by returning or by raising.\<close>

definition state_after :: "outcome \<Rightarrow> renderer" where
  "state_after out = (case out of Inl (failure, r) \<Rightarrow> r | Inr r \<Rightarrow> r)"

text \<open>
  A sequence of \<^verbatim>\<open>setMask\<close> calls, each run to its end: the next call starts from
  the state in which the previous one returned or, caught by the caller, raised.
\<close>

fun setMasks :: "(shape \<times> bool) list \<Rightarrow> renderer \<Rightarrow> renderer" where
  "setMasks [] r = r"
| "setMasks ((mask_shape, invert) # rest) r =
     setMasks rest (state_after (setMask mask_shape invert r))"

text \<open>Whether a shape is a rounded rectangle, the first test of \<^verbatim>\<open>setMask\<close>.\<close>

definition is_RoundRect :: "shape \<Rightarrow> bool" where
  "is_RoundRect mask_shape = (case mask_shape of RoundRect _ _ _ _ _ \<Rightarrow> True | _ \<Rightarrow> False)"

text \<open>The stack of saved states of the context that the renderer draws to.\<close>

definition save_stack :: "renderer \<Rightarrow> (real \<times> style \<times> string) list" where
  "save_stack r = saved (surfaces r (backBufferContext2D r))"

text \<open>The calls made so far on the context that the renderer draws to.\<close>

definition issued :: "renderer \<Rightarrow> ctx_op list" where
  "issued r = calls (surfaces r (backBufferContext2D r))"



text \<open>
  The calls on the context that change the pixels of the surface: the two that paint the
  current path, the two that paint a rectangle, and the one that draws an image.
\<close>

definition paints :: "ctx_op \<Rightarrow> bool" where
  "paints op =
     (case op of
        Fill \<Rightarrow> True
      | Stroke \<Rightarrow> True
      | FillRect _ _ _ _ \<Rightarrow> True
      | StrokeRect _ _ _ _ \<Rightarrow> True
      | DrawImage _ _ _ _ _ _ _ _ _ \<Rightarrow> True
      | _ \<Rightarrow> False)"


text \<open>
  The states on which the examples below run the functions: a context as the browser
  creates it, and a single-buffered renderer of 640 by 480 pixels with sub-pixel
  rendering disabled, a white tint and no mask, both of whose context references are
  the one context.
\<close>

definition fresh_context :: context2d where
  "fresh_context =
     \<lparr> calls = [], globalAlpha = 1, fillStyle = CssColor ''#000000'',
       globalCompositeOperation = ''source-over'', path = [], saved = [] \<rparr>"

definition example_renderer :: renderer where
  "example_renderer =
     \<lparr> settings = \<lparr> doubleBuffering = False, transparent = False, subPixel = False \<rparr>,
       context = 0,
       backBufferContext2D = 0,
       backBufferCanvas = \<lparr> element_id = 0, width = 640, height = 480 \<rparr>,
       surfaces = (\<lambda>ref. fresh_context),
       currentBlendMode = ''normal'',
       currentScissor = (0, 0, 640, 480),
       currentTint = (1, 1, 1, 1),
       maskLevel = 0 \<rparr>"

section \<open>Properties of the shader program\<close>

text \<open>
  C3. The code does not do what the claim says for a name that the table inherits:
  \<^verbatim>\<open>toString\<close> is not a uniform of the example shader, yet
  \<^verbatim>\<open>setUniform("toString", 1)\<close> finds \<^verbatim>\<open>Object.prototype.toString\<close> through
  the prototype chain, passes the test and writes the property instead of raising. For a
  name that is neither in the table nor inherited, such as \<^verbatim>\<open>uMissing\<close>, it raises
  the unknown-uniform error, and for the uniform \<^verbatim>\<open>uColor\<close> it stores the flat form
  of the value, but raises a \<open>TypeError\<close> when the value is \<^verbatim>\<open>null\<close>.
\<close>

theorem setUniform_inherited_name_written:
  "get_property (plain_object [''uColor'' \<mapsto> FlatArray [0, 0, 0, 0]]) ''toString''
     = Some (Inherited ''toString'') \<and>
   setUniform ''toString'' (Scalar 1) example_shader
     = Inr (example_shader\<lparr>uniforms :=
         Some (plain_object [''uColor'' \<mapsto> FlatArray [0, 0, 0, 0], ''toString'' \<mapsto> Scalar 1])\<rparr>) \<and>
   setUniform ''toString'' (Scalar 1) example_shader \<noteq> Inl (undefined_uniform ''toString'') \<and>
   setUniform ''uMissing'' (Scalar 1) example_shader = Inl (undefined_uniform ''uMissing'') \<and>
   setUniform ''uColor'' (ArrayConvertible [1, 0, 0, 1]) example_shader
     = Inr (example_shader\<lparr>uniforms :=
         Some (plain_object [''uColor'' \<mapsto> FlatArray [1, 0, 0, 1]])\<rparr>) \<and>
   setUniform ''uColor'' Null example_shader = Inl TypeError"
  by (simp add: setUniform_def assign_def get_property_def example_shader_def GLShader_def
      plain_object_def Object_prototype_def undefined_uniform_def)

text \<open>
  C4. The code does not do what the claim says for a name that the table inherits:
  \<^verbatim>\<open>toString\<close> is not an attribute of the example shader, yet
  \<^verbatim>\<open>getAttribLocation("toString")\<close> returns what the property read finds through
  the prototype chain, the function \<^verbatim>\<open>Object.prototype.toString\<close>, and not -1. For
  a name that is neither in the table nor inherited, such as \<^verbatim>\<open>aNormal\<close>, it returns
  -1, and for the attribute \<^verbatim>\<open>aPos\<close> its location.
\<close>

theorem getAttribLocation_inherited_name_returned:
  "getAttribLocation ''toString'' example_shader = Inr (Inherited ''toString'') \<and>
   getAttribLocation ''toString'' example_shader \<noteq> Inr (Value (- 1)) \<and>
   getAttribLocation ''aNormal'' example_shader = Inr (Value (- 1)) \<and>
   getAttribLocation ''aPos'' example_shader = Inr (Value 0)"
  by (simp add: getAttribLocation_def get_property_def example_shader_def GLShader_def
      plain_object_def Object_prototype_def)

text \<open>
  C10. After \<^verbatim>\<open>destroy()\<close> the attribute and uniform tables are \<^verbatim>\<open>null\<close>, and
  for every name \<^verbatim>\<open>getAttribLocation\<close> and \<^verbatim>\<open>setUniform\<close> fail with the
  engine's null-access error: the first no longer returns -1 or a location, the second
  no longer raises the unknown-uniform error.
\<close>

theorem destroyed_shader_null_access:
  "attributes (destroy s) = None \<and>
   uniforms (destroy s) = None \<and>
   getAttribLocation name (destroy s) = Inl TypeError \<and>
   setUniform name v (destroy s) = Inl TypeError \<and>
   getAttribLocation name (destroy s) \<noteq> Inr (Value (- 1)) \<and>
   setUniform name v (destroy s) \<noteq> Inl (undefined_uniform name)"
  by (simp add: destroy_def getAttribLocation_def setUniform_def undefined_uniform_def)

section \<open>Properties of the surface backend\<close>

subsection \<open>Calls on the context\<close>

lemma invoke_keeps [simp]:
  "settings (invoke ref op r) = settings r"
  "context (invoke ref op r) = context r"
  "backBufferContext2D (invoke ref op r) = backBufferContext2D r"
  "backBufferCanvas (invoke ref op r) = backBufferCanvas r"
  "currentBlendMode (invoke ref op r) = currentBlendMode r"
  "currentScissor (invoke ref op r) = currentScissor r"
  "currentTint (invoke ref op r) = currentTint r"
  "maskLevel (invoke ref op r) = maskLevel r"
  by (simp_all add: invoke_def)

lemma invoke_all_keeps [simp]:
  "settings (invoke_all ref ops r) = settings r"
  "context (invoke_all ref ops r) = context r"
  "backBufferContext2D (invoke_all ref ops r) = backBufferContext2D r"
  "backBufferCanvas (invoke_all ref ops r) = backBufferCanvas r"
  "currentBlendMode (invoke_all ref ops r) = currentBlendMode r"
  "currentScissor (invoke_all ref ops r) = currentScissor r"
  "currentTint (invoke_all ref ops r) = currentTint r"
  "maskLevel (invoke_all ref ops r) = maskLevel r"
  by (induction ops arbitrary: r; simp)+

lemma calls_invoke:
  "calls (surfaces (invoke ref op r) ref) = calls (surfaces r ref) @ [op]"
  by (simp add: invoke_def perform_def)

lemma calls_invoke_all:
  "calls (surfaces (invoke_all ref ops r) ref) = calls (surfaces r ref) @ ops"
  by (induction ops arbitrary: r) (simp_all add: calls_invoke)

lemma issued_invoke:
  "ref = backBufferContext2D r \<Longrightarrow> issued (invoke ref op r) = issued r @ [op]"
  by (simp add: issued_def calls_invoke)

lemma issued_invoke_all:
  "ref = backBufferContext2D r \<Longrightarrow> issued (invoke_all ref ops r) = issued r @ ops"
  by (simp add: issued_def calls_invoke_all)


lemma translate_ref [simp]:
  "backBufferContext2D (translate x y r) = backBufferContext2D r"
  by (simp add: translate_def)

subsection \<open>The alpha fast path\<close>

lemma one_255th_nearest_double:
  "one_255th = 4521260802379792 / 2 ^ 60 \<and>
   (2::nat) ^ 52 \<le> 4521260802379792 \<and> 4521260802379792 < (2::nat) ^ 53 \<and>
   one_255th < 1 / 255 \<and> 1 / 255 - one_255th < 1 / 2 ^ 61"
  by (simp add: one_255th_def)


lemma paints_fill_or_stroke [simp]:
  "paints (if fill then Fill else Stroke)"
  by (simp add: paints_def)


lemma strokePolygon_without_vertex:
  assumes "\<not> getGlobalAlpha r < one_255th" and "points poly = []"
  shows "\<exists>r' t. strokePolygon poly fill r = Inl (TypeError, r') \<and>
           issued r' = issued r @ [t, BeginPath] \<and> \<not> paints t"
proof -
  let ?b = "backBufferContext2D r"
  let ?r1 = "translate (fst (pos poly)) (snd (pos poly)) r"
  let ?r2 = "invoke ?b BeginPath ?r1"
  have raised: "strokePolygon poly fill r = Inl (TypeError, ?r2)"
    unfolding strokePolygon_def Let_def getContext_def using assms by simp
  have "\<exists>t. issued ?r1 = issued r @ [t] \<and> \<not> paints t"
    by (simp add: translate_def issued_invoke paints_def)
  then obtain t where "issued ?r1 = issued r @ [t]" and "\<not> paints t" by blast
  then have "issued ?r2 = issued r @ [t, BeginPath] \<and> \<not> paints t"
    by (simp add: issued_invoke)
  with raised show ?thesis by blast
qed






subsection \<open>Fill is stroke with the fill flag\<close>

text \<open>
  C6. Every \<^verbatim>\<open>fillX\<close> is \<^verbatim>\<open>strokeX\<close> called with the same arguments and
  \<^verbatim>\<open>fill = true\<close>, for rectangle, ellipse, arc, polygon and rounded rectangle: the
  two calls leave the same renderer, so they make the same calls on the context.
  \<^verbatim>\<open>strokeLine\<close> has no fill parameter and JavaScript drops a surplus argument, so
  \<^verbatim>\<open>strokeLine(x0, y0, x1, y1, true)\<close> is \<^verbatim>\<open>strokeLine(x0, y0, x1, y1)\<close>, which
  \<^verbatim>\<open>fillLine\<close> calls.
\<close>

theorem fill_is_stroke_with_fill:
  "fillRect x y w h r = strokeRect x y w h True r \<and>
   fillEllipse x y w h r = strokeEllipse x y w h True r \<and>
   fillArc x y rad s e acw r = strokeArc x y rad s e acw True r \<and>
   fillPolygon poly r = strokePolygon poly True r \<and>
   fillRoundRect x y w h rad r = strokeRoundRect x y w h rad True r \<and>
   fillLine x0 y0 x1 y1 r = strokeLine x0 y0 x1 y1 r"
  by (simp add: fillRect_def fillEllipse_def fillArc_def fillPolygon_def fillRoundRect_def
      fillLine_def strokeArc_def or_false_def)

subsection \<open>Blend modes\<close>

lemma gco_invoke: "globalCompositeOperation (surfaces (invoke ref (SetGlobalCompositeOperation g) r) ref') =
   (if ref' = ref then g else globalCompositeOperation (surfaces r ref'))"
  by (simp add: invoke_def perform_def effect_def)

text \<open>
  C7. \<^verbatim>\<open>setBlendMode\<close> returns for every mode string. It records the mode and
  writes the mapped compositing operation to its target context (the context passed,
  else the renderer's own): \<open>multiply\<close> for \<open>multiply\<close>, \<open>lighter\<close> for
  \<open>additive\<close> and \<open>lighter\<close>, \<open>screen\<close> for \<open>screen\<close>, and \<open>source-over\<close>
  for \<open>normal\<close> and for every other string, for which it also records \<open>normal\<close>
  and leaves the very renderer that \<^verbatim>\<open>setBlendMode("normal")\<close> leaves. The mapped
  operation is what the target holds afterwards unless the target is the front context
  of a transparent double-buffered renderer, which is then set to \<open>copy\<close>.
\<close>

theorem setBlendMode_total_mapping:
  assumes "target = (case c of None \<Rightarrow> getContext r | Some t \<Rightarrow> t)"
  shows "(m \<notin> {''screen'', ''lighter'', ''additive'', ''multiply''} \<longrightarrow>
            setBlendMode (Some m) c r = setBlendMode (Some ''normal'') c r) \<and>
         setBlendMode None c r = setBlendMode (Some ''normal'') c r \<and>
         currentBlendMode (setBlendMode (Some m) c r) =
           (if m \<in> {''screen'', ''lighter'', ''additive'', ''multiply''} then m
            else ''normal'') \<and>
         (\<not> (doubleBuffering (settings r) \<and> transparent (settings r) \<and> target = context r) \<longrightarrow>
            globalCompositeOperation (surfaces (setBlendMode (Some m) c r) target) =
              (if m = ''multiply'' then ''multiply''
               else if m = ''additive'' \<or> m = ''lighter'' then ''lighter''
               else if m = ''screen'' then ''screen''
               else ''source-over''))"
proof -
  have unknown: "m \<notin> {''screen'', ''lighter'', ''additive'', ''multiply''} \<longrightarrow>
      setBlendMode (Some m) c r = setBlendMode (Some ''normal'') c r"
    by (simp add: setBlendMode_def Let_def invoke_def)
  have default: "setBlendMode None c r = setBlendMode (Some ''normal'') c r"
    by (simp add: setBlendMode_def Let_def)
  have recorded: "currentBlendMode (setBlendMode (Some m) c r) =
      (if m \<in> {''screen'', ''lighter'', ''additive'', ''multiply''} then m else ''normal'')"
    by (simp add: setBlendMode_def Let_def)
  have mapped:
    "\<not> (doubleBuffering (settings r) \<and> transparent (settings r) \<and> target = context r) \<longrightarrow>
       globalCompositeOperation (surfaces (setBlendMode (Some m) c r) target) =
         (if m = ''multiply'' then ''multiply''
          else if m = ''additive'' \<or> m = ''lighter'' then ''lighter''
          else if m = ''screen'' then ''screen''
          else ''source-over'')"
    using assms by (auto simp add: setBlendMode_def Let_def gco_invoke)
  show ?thesis using unknown default recorded mapped by blast
qed

theorem setBlendMode_total_mapping_witness:
  "setBlendMode (Some ''unknown-token'') None example_renderer
     = setBlendMode (Some ''normal'') None example_renderer \<and>
   currentBlendMode (setBlendMode (Some ''unknown-token'') None example_renderer) = ''normal'' \<and>
   globalCompositeOperation
     (surfaces (setBlendMode (Some ''unknown-token'') None example_renderer) 0)
     = ''source-over'' \<and>
   globalCompositeOperation
     (surfaces (setBlendMode (Some ''additive'') None example_renderer) 0)
     = ''lighter''"
proof -
  have target: "(0::nat) = (case None of None \<Rightarrow> getContext example_renderer | Some t \<Rightarrow> t)"
    by (simp add: getContext_def example_renderer_def)
  have single: "\<not> (doubleBuffering (settings example_renderer) \<and>
      transparent (settings example_renderer) \<and> 0 = context example_renderer)"
    by (simp add: example_renderer_def)
  have other: "''unknown-token'' \<notin> {''screen'', ''lighter'', ''additive'', ''multiply''}"
    by simp
  note unknown = setBlendMode_total_mapping [OF target, of "''unknown-token''"]
  note additive = setBlendMode_total_mapping [OF target, of "''additive''"]
  have same: "setBlendMode (Some ''unknown-token'') None example_renderer
      = setBlendMode (Some ''normal'') None example_renderer"
    using unknown other by blast
  have "currentBlendMode (setBlendMode (Some ''unknown-token'') None example_renderer)
      = (if ''unknown-token'' \<in> {''screen'', ''lighter'', ''additive'', ''multiply''}
         then ''unknown-token'' else ''normal'')"
    using unknown by blast
  then have recorded:
    "currentBlendMode (setBlendMode (Some ''unknown-token'') None example_renderer) = ''normal''"
    by simp
  have "globalCompositeOperation
        (surfaces (setBlendMode (Some ''unknown-token'') None example_renderer) 0)
      = (if ''unknown-token'' = ''multiply'' then ''multiply''
         else if ''unknown-token'' = ''additive'' \<or> ''unknown-token'' = ''lighter''
           then ''lighter''
         else if ''unknown-token'' = ''screen'' then ''screen''
         else ''source-over'')"
    using unknown single by blast
  then have fallback: "globalCompositeOperation
        (surfaces (setBlendMode (Some ''unknown-token'') None example_renderer) 0)
      = ''source-over''"
    by simp
  have "globalCompositeOperation
        (surfaces (setBlendMode (Some ''additive'') None example_renderer) 0)
      = (if ''additive'' = ''multiply'' then ''multiply''
         else if ''additive'' = ''additive'' \<or> ''additive'' = ''lighter'' then ''lighter''
         else if ''additive'' = ''screen'' then ''screen''
         else ''source-over'')"
    using additive single by blast
  then have lighter: "globalCompositeOperation
        (surfaces (setBlendMode (Some ''additive'') None example_renderer) 0)
      = ''lighter''"
    by simp
  show ?thesis using same recorded fallback lighter by blast
qed

subsection \<open>The memoized clip rectangle\<close>

lemma clipRect_skips:
  "(x, y, w, h) = (0, 0, width (backBufferCanvas r), height (backBufferCanvas r)) \<or>
   (x, y, w, h) = currentScissor r \<Longrightarrow> clipRect x y w h r = r"
  by (auto simp: clipRect_def Let_def split: prod.splits)

lemma clipRect_applies:
  "(x, y, w, h) \<noteq> (0, 0, width (backBufferCanvas r), height (backBufferCanvas r)) \<Longrightarrow>
   (x, y, w, h) \<noteq> currentScissor r \<Longrightarrow>
   clipRect x y w h r =
     (invoke_all (backBufferContext2D r) [BeginPath, RectPath x y w h, Clip] r)
       \<lparr>currentScissor := (x, y, w, h)\<rparr>"
  by (cases "currentScissor r") (auto simp: clipRect_def Let_def simp del: invoke_all.simps)

lemma issued_currentScissor_update:
  "issued (r\<lparr>currentScissor := box\<rparr>) = issued r"
  by (simp add: issued_def)

text \<open>
  C8. \<^verbatim>\<open>clipRect(x, y, w, h)\<close> changes nothing when the rectangle is the full back
  buffer or the cached scissor rectangle; otherwise it builds the clip path
  (\<^verbatim>\<open>beginPath\<close>, \<^verbatim>\<open>rect\<close>, \<^verbatim>\<open>clip\<close>) once and caches the rectangle. So a
  second identical call right after the first leaves the renderer and its context as the
  first call left them.
\<close>

theorem clipRect_memoized:
  "((x, y, w, h) = (0, 0, width (backBufferCanvas r), height (backBufferCanvas r)) \<or>
    (x, y, w, h) = currentScissor r \<longrightarrow> clipRect x y w h r = r) \<and>
   ((x, y, w, h) \<noteq> (0, 0, width (backBufferCanvas r), height (backBufferCanvas r)) \<and>
    (x, y, w, h) \<noteq> currentScissor r \<longrightarrow>
      issued (clipRect x y w h r) = issued r @ [BeginPath, RectPath x y w h, Clip] \<and>
      currentScissor (clipRect x y w h r) = (x, y, w, h)) \<and>
   clipRect x y w h (clipRect x y w h r) = clipRect x y w h r"
proof (cases "(x, y, w, h) = (0, 0, width (backBufferCanvas r), height (backBufferCanvas r)) \<or>
    (x, y, w, h) = currentScissor r")
  case True
  then have "clipRect x y w h r = r" by (rule clipRect_skips)
  with True show ?thesis by auto
next
  case False
  then have applied: "clipRect x y w h r =
      (invoke_all (backBufferContext2D r) [BeginPath, RectPath x y w h, Clip] r)
        \<lparr>currentScissor := (x, y, w, h)\<rparr>"
    using clipRect_applies by blast
  have calls: "issued (clipRect x y w h r) = issued r @ [BeginPath, RectPath x y w h, Clip]"
    by (simp only: applied issued_currentScissor_update)
      (simp add: issued_invoke_all del: invoke_all.simps)
  have cached: "currentScissor (clipRect x y w h r) = (x, y, w, h)"
    by (simp only: applied) simp
  then have "clipRect x y w h (clipRect x y w h r) = clipRect x y w h r"
    by (simp add: clipRect_skips)
  with False calls cached show ?thesis by blast
qed

theorem clipRect_memoized_witness:
  "clipRect 0 0 640 480 example_renderer = example_renderer \<and>
   issued (clipRect 10 20 100 50 example_renderer) = [BeginPath, RectPath 10 20 100 50, Clip] \<and>
   currentScissor (clipRect 10 20 100 50 example_renderer) = (10, 20, 100, 50) \<and>
   clipRect 10 20 100 50 (clipRect 10 20 100 50 example_renderer)
     = clipRect 10 20 100 50 example_renderer"
proof -
  have full: "(0, 0, 640, 480) =
      (0, 0, width (backBufferCanvas example_renderer), height (backBufferCanvas example_renderer))"
    by (simp add: example_renderer_def)
  have other: "(10, 20, 100, 50) \<noteq>
      (0, 0, width (backBufferCanvas example_renderer), height (backBufferCanvas example_renderer)) \<and>
      (10, 20, 100, 50) \<noteq> currentScissor example_renderer"
    by (simp add: example_renderer_def)
  have start: "issued example_renderer = []"
    by (simp add: issued_def example_renderer_def fresh_context_def)
  show ?thesis
    using clipRect_memoized [of 0 0 640 480 example_renderer]
      clipRect_memoized [of 10 20 100 50 example_renderer] full other start
    by simp
qed

subsection \<open>Grid snapping\<close>

lemma ToInt32_in_range:
  assumes "- (2 ^ 31) - 1 < v" and "v < 2 ^ 31"
  shows "ToInt32 v = (if v < 0 then \<lceil>v\<rceil> else \<lfloor>v\<rfloor>)"
proof -
  define n :: int where "n = (if v < 0 then - \<lfloor>- v\<rfloor> else \<lfloor>v\<rfloor>)"
  have n_ceil: "n = (if v < 0 then \<lceil>v\<rceil> else \<lfloor>v\<rfloor>)"
    by (simp add: n_def ceiling_def)
  have lo: "- (2 ^ 31) \<le> n"
  proof (cases "v < 0")
    case True
    have "- v < 2 ^ 31 + 1" using assms(1) by simp
    then have "\<lfloor>- v\<rfloor> < 2 ^ 31 + 1" by (simp add: floor_less_iff)
    then show ?thesis using True by (simp add: n_def)
  next
    case False
    then have "0 \<le> \<lfloor>v\<rfloor>" by simp
    then show ?thesis using False by (simp add: n_def)
  qed
  have hi: "n < 2 ^ 31"
  proof (cases "v < 0")
    case True
    then have "0 \<le> \<lfloor>- v\<rfloor>" by simp
    moreover have "(0::int) < 2 ^ 31" by simp
    ultimately have "- \<lfloor>- v\<rfloor> < (2 :: int) ^ 31" by linarith
    then show ?thesis using True by (simp add: n_def)
  next
    case False
    have "\<lfloor>v\<rfloor> < 2 ^ 31" using assms(2) by (simp add: floor_less_iff)
    then show ?thesis using False by (simp add: n_def)
  qed
  have "(let k = n mod 2 ^ 32 in if 2 ^ 31 \<le> k then k - 2 ^ 32 else k) = n"
  proof (cases "n < 0")
    case True
    have "(n + 2 ^ 32) mod 2 ^ 32 = n + 2 ^ 32"
      using lo True by (intro mod_pos_pos_trivial) simp_all
    then have "n mod 2 ^ 32 = n + 2 ^ 32"
      by simp
    then show ?thesis using lo True by (simp add: Let_def)
  next
    case False
    then have "n mod 2 ^ 32 = n" using hi by simp
    then show ?thesis using hi by (simp add: Let_def)
  qed
  then have "ToInt32 v = n" by (simp add: ToInt32_def n_def Let_def)
  then show ?thesis using n_ceil by simp
qed

text \<open>
  C9, as the claim states it, fails: with sub-pixel rendering disabled,
  \<^verbatim>\<open>translate(-1.5, 2.5)\<close> calls the context's \<^verbatim>\<open>translate(-1, 2)\<close>, where the
  floor of -1.5 is -2, and \<^verbatim>\<open>transform\<close> of a matrix with the translation
  (-1.5, -0.5) passes (-1, 0), where the floors are (-2, -1).
\<close>

theorem translate_floor_counterexample:
  "subPixel (settings example_renderer) = False \<and>
   issued (translate (- 3 / 2) (5 / 2) example_renderer) = [Translate (- 1) 2] \<and>
   issued (translate (- 3 / 2) (5 / 2) example_renderer)
     \<noteq> [Translate (of_int \<lfloor>- 3 / 2 :: real\<rfloor>) (of_int \<lfloor>5 / 2 :: real\<rfloor>)] \<and>
   issued (transform (Matrix2d 1 0 0 0 1 0 (- 3 / 2) (- 1 / 2) 1) example_renderer)
     = [Transform 1 0 0 1 (- 1) 0] \<and>
   issued (transform (Matrix2d 1 0 0 0 1 0 (- 3 / 2) (- 1 / 2) 1) example_renderer)
     \<noteq> [Transform 1 0 0 1 (of_int \<lfloor>- 3 / 2 :: real\<rfloor>) (of_int \<lfloor>- 1 / 2 :: real\<rfloor>)]"
  by (simp add: translate_def issued_invoke ToInt32_def Let_def)
    (simp add: issued_def example_renderer_def fresh_context_def)

text \<open>
  C9, amended. With sub-pixel rendering disabled, \<^verbatim>\<open>translate(x, y)\<close> and
  \<^verbatim>\<open>transform(matrix)\<close> convert the translation components to 32-bit integers
  (\<^verbatim>\<open>~~x\<close>, \<^verbatim>\<open>e |= 0\<close>) before they apply them: a component strictly between
  \<open>-2^31 - 1\<close> and \<open>2^31\<close> is truncated towards zero, which is its floor when it is
  not negative and its ceiling when it is negative. With sub-pixel rendering enabled the
  components are passed through unchanged.
\<close>

theorem translate_transform_truncate:
  "(subPixel (settings r) = False \<longrightarrow>
      issued (translate x y r)
        = issued r @ [Translate (of_int (ToInt32 x)) (of_int (ToInt32 y))] \<and>
      issued (transform (Matrix2d m0 m1 m2 m3 m4 m5 m6 m7 m8) r)
        = issued r @ [Transform m0 m1 m3 m4 (of_int (ToInt32 m6)) (of_int (ToInt32 m7))]) \<and>
   (subPixel (settings r) = True \<longrightarrow>
      issued (translate x y r) = issued r @ [Translate x y] \<and>
      issued (transform (Matrix2d m0 m1 m2 m3 m4 m5 m6 m7 m8) r)
        = issued r @ [Transform m0 m1 m3 m4 m6 m7]) \<and>
   (- (2 ^ 31) - 1 < v \<and> v < 2 ^ 31 \<longrightarrow>
      ToInt32 v = (if v < 0 then \<lceil>v\<rceil> else \<lfloor>v\<rfloor>))"
  using ToInt32_in_range [of v] by (simp add: translate_def issued_invoke Let_def)

theorem translate_transform_truncate_witness:
  "issued (translate (- 3 / 2) (5 / 2) example_renderer) = [Translate (- 1) 2] \<and>
   issued (transform (Matrix2d 1 0 0 0 1 0 (- 3 / 2) (5 / 2) 1) example_renderer)
     = [Transform 1 0 0 1 (- 1) 2] \<and>
   issued (translate (- 3 / 2) (5 / 2)
       (example_renderer\<lparr>settings := (settings example_renderer)\<lparr>subPixel := True\<rparr>\<rparr>))
     = [Translate (- 3 / 2) (5 / 2)] \<and>
   ToInt32 (- 3 / 2) = \<lceil>- 3 / 2 :: real\<rceil>"
proof -
  let ?sub = "example_renderer\<lparr>settings := (settings example_renderer)\<lparr>subPixel := True\<rparr>\<rparr>"
  have disabled: "subPixel (settings example_renderer) = False"
    by (simp add: example_renderer_def)
  have enabled: "subPixel (settings ?sub) = True"
    by simp
  have initially: "issued example_renderer = []" "issued ?sub = []"
    by (simp_all add: issued_def example_renderer_def fresh_context_def)
  have in_range: "- (2 ^ 31) - 1 < (- 3 / 2 :: real) \<and> (- 3 / 2 :: real) < 2 ^ 31"
    by simp
  have converted: "ToInt32 (- 3 / 2) = - 1" "ToInt32 (5 / 2) = 2"
    by (simp_all add: ToInt32_def Let_def)
  note snapped = translate_transform_truncate
      [of example_renderer "- 3 / 2" "5 / 2" 1 0 0 0 1 0 "- 3 / 2" "5 / 2" 1 "- 3 / 2"]
  note passed = translate_transform_truncate
      [of ?sub "- 3 / 2" "5 / 2" 1 0 0 0 1 0 "- 3 / 2" "5 / 2" 1 0]
  have "issued (translate (- 3 / 2) (5 / 2) example_renderer)
      = issued example_renderer
        @ [Translate (of_int (ToInt32 (- 3 / 2))) (of_int (ToInt32 (5 / 2)))]"
    using snapped disabled by blast
  then have moved: "issued (translate (- 3 / 2) (5 / 2) example_renderer) = [Translate (- 1) 2]"
    unfolding converted initially by simp
  have "issued (transform (Matrix2d 1 0 0 0 1 0 (- 3 / 2) (5 / 2) 1) example_renderer)
      = issued example_renderer
        @ [Transform 1 0 0 1 (of_int (ToInt32 (- 3 / 2))) (of_int (ToInt32 (5 / 2)))]"
    using snapped disabled by blast
  then have multiplied:
    "issued (transform (Matrix2d 1 0 0 0 1 0 (- 3 / 2) (5 / 2) 1) example_renderer)
      = [Transform 1 0 0 1 (- 1) 2]"
    unfolding converted initially by (simp del: transform.simps)
  have "issued (translate (- 3 / 2) (5 / 2) ?sub) = issued ?sub @ [Translate (- 3 / 2) (5 / 2)]"
    using passed enabled by blast
  then have unsnapped: "issued (translate (- 3 / 2) (5 / 2) ?sub) = [Translate (- 3 / 2) (5 / 2)]"
    unfolding initially by simp
  have "ToInt32 (- 3 / 2) = (if (- 3 / 2 :: real) < 0 then \<lceil>- 3 / 2 :: real\<rceil>
      else \<lfloor>- 3 / 2 :: real\<rfloor>)"
    using snapped in_range by blast
  then have towards_zero: "ToInt32 (- 3 / 2) = \<lceil>- 3 / 2 :: real\<rceil>"
    by (simp del: ceiling_divide_eq_div_numeral ceiling_minus_divide_eq_div_numeral)
  show ?thesis using moved multiplied unsnapped towards_zero by blast
qed

subsection \<open>Masks\<close>

lemma invoke_all_append:
  "invoke_all ref (xs @ ys) r = invoke_all ref ys (invoke_all ref xs r)"
  by (induction xs arbitrary: r) simp_all

lemma invoke_maskLevel_update:
  "invoke ref op (r\<lparr>maskLevel := n\<rparr>) = (invoke ref op r)\<lparr>maskLevel := n\<rparr>"
  by (simp add: invoke_def)

lemma invoke_all_maskLevel_update:
  "invoke_all ref ops (r\<lparr>maskLevel := n\<rparr>) = (invoke_all ref ops r)\<lparr>maskLevel := n\<rparr>"
  by (induction ops arbitrary: r) (simp_all add: invoke_maskLevel_update)

lemma issued_maskLevel_update:
  "issued (r\<lparr>maskLevel := n\<rparr>) = issued r"
  by (simp add: issued_def)

lemma setMask_first:
  assumes "maskLevel r = 0"
  shows "\<exists>ops. setMask m invert r =
            Inr ((invoke_all (backBufferContext2D r) (Save # ops) r)\<lparr>maskLevel := 1\<rparr>) \<and>
           Save \<notin> set ops \<and> Restore \<notin> set ops"
proof (cases invert)
  case True
  let ?ops = "[BeginPath, ClosePath, SetGlobalCompositeOperation ''destination-atop'', Fill]"
  have "setMask m invert r = Inr ((invoke_all (backBufferContext2D r) (Save # ?ops) r)\<lparr>maskLevel := 1\<rparr>)"
    using assms True by (simp add: setMask_def getContext_def Let_def invoke_maskLevel_update)
  then show ?thesis by (intro exI [of _ ?ops]) simp
next
  case False
  let ?ops = "[BeginPath, Clip]"
  have "setMask m invert r = Inr ((invoke_all (backBufferContext2D r) (Save # ?ops) r)\<lparr>maskLevel := 1\<rparr>)"
    using assms False by (simp add: setMask_def getContext_def Let_def invoke_maskLevel_update)
  then show ?thesis by (intro exI [of _ ?ops]) simp
qed

lemma setMask_nested_RoundRect:
  assumes "0 < maskLevel r" and "is_RoundRect m"
  shows "\<exists>ops. setMask m invert r =
            Inr ((invoke_all (backBufferContext2D r) ops r)\<lparr>maskLevel := maskLevel r + 1\<rparr>) \<and>
           Save \<notin> set ops \<and> Restore \<notin> set ops"
proof -
  let ?b = "backBufferContext2D r"
  obtain l t w h rad where m: "m = RoundRect l t w h rad"
    using assms(2) by (cases m) (simp_all add: is_RoundRect_def)
  let ?post = "if invert then [ClosePath, SetGlobalCompositeOperation ''destination-atop'', Fill]
    else [Clip]"
  let ?ops = "RoundRectPath t l w h rad # ?post"
  have "setMask m invert r = Inr ((invoke_all ?b ?ops r)\<lparr>maskLevel := maskLevel r + 1\<rparr>)"
    using assms(1)
    by (simp add: m setMask_def trace_mask_def getContext_def Let_def invoke_maskLevel_update)
  moreover have "Save \<notin> set ?ops \<and> Restore \<notin> set ?ops" by simp
  ultimately show ?thesis by blast
qed

lemma setMask_nested_other:
  assumes "0 < maskLevel r" and "\<not> is_RoundRect m"
  shows "setMask m invert r = Inl (ReferenceError, r)"
  using assms
  by (cases m)
    (simp_all add: is_RoundRect_def setMask_def trace_mask_def after_Rect_test_def
      Rect_identifier_def getContext_def)

lemma setMasks_nested:
  assumes "0 < maskLevel r"
  shows "\<exists>ops. setMasks ms r =
            (invoke_all (backBufferContext2D r) ops r)
              \<lparr>maskLevel := maskLevel r + length (filter (\<lambda>(m, invert). is_RoundRect m) ms)\<rparr> \<and>
           Save \<notin> set ops \<and> Restore \<notin> set ops"
  using assms
proof (induction ms arbitrary: r)
  case Nil
  show ?case by (intro exI [of _ "[]"]) simp
next
  case (Cons a ms)
  obtain m invert where a: "a = (m, invert)" by (cases a)
  let ?b = "backBufferContext2D r"
  show ?case
  proof (cases "is_RoundRect m")
    case True
    with Cons.prems obtain ops where
      step: "setMask m invert r = Inr ((invoke_all ?b ops r)\<lparr>maskLevel := maskLevel r + 1\<rparr>)"
      and ops: "Save \<notin> set ops" "Restore \<notin> set ops"
      using setMask_nested_RoundRect by blast
    let ?r' = "(invoke_all ?b ops r)\<lparr>maskLevel := maskLevel r + 1\<rparr>"
    have "0 < maskLevel ?r'" by simp
    then obtain ops' where
      rest: "setMasks ms ?r' =
          (invoke_all (backBufferContext2D ?r') ops' ?r')
            \<lparr>maskLevel := maskLevel ?r' + length (filter (\<lambda>(m, invert). is_RoundRect m) ms)\<rparr>"
      and ops': "Save \<notin> set ops'" "Restore \<notin> set ops'"
      using Cons.IH [of ?r'] by blast
    have "setMasks (a # ms) r =
        (invoke_all ?b (ops @ ops') r)
          \<lparr>maskLevel := maskLevel r + length (filter (\<lambda>(m, invert). is_RoundRect m) (a # ms))\<rparr>"
      using step rest True
      by (simp add: a state_after_def invoke_all_append invoke_all_maskLevel_update)
    moreover have "Save \<notin> set (ops @ ops') \<and> Restore \<notin> set (ops @ ops')"
      using ops ops' by simp
    ultimately show ?thesis by blast
  next
    case False
    with Cons.prems have step: "setMask m invert r = Inl (ReferenceError, r)"
      by (rule setMask_nested_other)
    obtain ops where
      rest: "setMasks ms r =
          (invoke_all ?b ops r)
            \<lparr>maskLevel := maskLevel r + length (filter (\<lambda>(m, invert). is_RoundRect m) ms)\<rparr>"
      and ops: "Save \<notin> set ops" "Restore \<notin> set ops"
      using Cons.IH [OF Cons.prems] by blast
    have "setMasks (a # ms) r =
        (invoke_all ?b ops r)
          \<lparr>maskLevel := maskLevel r + length (filter (\<lambda>(m, invert). is_RoundRect m) (a # ms))\<rparr>"
      using step rest False by (simp add: a state_after_def)
    with ops show ?thesis by blast
  qed
qed

lemma saved_invoke_other:
  "op \<noteq> Save \<Longrightarrow> op \<noteq> Restore \<Longrightarrow>
   saved (surfaces (invoke ref op r) ref) = saved (surfaces r ref)"
  by (cases op) (simp_all add: invoke_def perform_def effect_def)

lemma saved_invoke_all_other:
  "Save \<notin> set ops \<Longrightarrow> Restore \<notin> set ops \<Longrightarrow>
   saved (surfaces (invoke_all ref ops r) ref) = saved (surfaces r ref)"
  by (induction ops arbitrary: r) (auto simp: saved_invoke_other)

lemma saved_invoke_Save:
  "\<exists>snapshot. saved (surfaces (invoke ref Save r) ref) = snapshot # saved (surfaces r ref)"
  by (simp add: invoke_def perform_def effect_def)

lemma saved_invoke_Restore:
  "saved (surfaces r ref) = snapshot # rest \<Longrightarrow>
   saved (surfaces (invoke ref Restore r) ref) = rest"
  by (cases snapshot) (simp add: invoke_def perform_def effect_def split: prod.splits)

text \<open>
  C1. The code does not do what the claim says. On the first push (mask level 0) the
  branches that trace the shape are the \<^verbatim>\<open>else\<close> part of the test
  \<^verbatim>\<open>this.maskLevel === 0\<close>, so \<^verbatim>\<open>setMask\<close> saves, begins a path and clips, and
  the path stays empty. On a later push a rounded rectangle with left 10 and top 20 is
  traced by \<^verbatim>\<open>roundRect(mask.top, mask.left, ...)\<close>, which starts at (20, 10), and a
  rectangle is not traced at all: the call raises a \<open>ReferenceError\<close> with the path
  and the mask level as they were.
\<close>

theorem setMask_first_push_traces_nothing:
  "setMask (RoundRect 10 20 30 40 5) False example_renderer
     = Inr (state_after (setMask (RoundRect 10 20 30 40 5) False example_renderer)) \<and>
   issued (state_after (setMask (RoundRect 10 20 30 40 5) False example_renderer))
     = [Save, BeginPath, Clip] \<and>
   path (surfaces (state_after (setMask (RoundRect 10 20 30 40 5) False example_renderer)) 0)
     = [] \<and>
   maskLevel (state_after (setMask (RoundRect 10 20 30 40 5) False example_renderer)) = 1 \<and>
   path (surfaces (state_after (setMask (RoundRect 10 20 30 40 5) False
           (state_after (setMask (RoundRect 10 20 30 40 5) False example_renderer)))) 0)
     = [RoundRectPath 20 10 30 40 5] \<and>
   setMask (Rect 10 20 30 40) False
       (state_after (setMask (RoundRect 10 20 30 40 5) False example_renderer))
     = Inl (ReferenceError,
         state_after (setMask (RoundRect 10 20 30 40 5) False example_renderer))"
  by (simp add: setMask_def trace_mask_def after_Rect_test_def Rect_identifier_def
      state_after_def getContext_def issued_def invoke_def perform_def effect_def
      example_renderer_def fresh_context_def)

text \<open>
  C2. Starting with no mask, let \<^verbatim>\<open>setMask\<close> be called \<open>N \<ge> 1\<close> times, each call
  returning or raising, and \<^verbatim>\<open>clearMask\<close> once after them. Then the context's stack
  of saved states is as it was before the first call and the mask level is 0. In
  between, the context is saved exactly once, as the first call made on it, and restored
  exactly once, as the last. Before \<^verbatim>\<open>clearMask\<close> the mask level counts the calls
  that returned: the first, and every later one whose shape is a rounded rectangle (any
  other shape makes a later call raise, with nothing changed).
\<close>

theorem setMask_nesting_net_zero:
  assumes "maskLevel r = 0" and "masks \<noteq> []"
  shows "save_stack (clearMask (setMasks masks r)) = save_stack r \<and>
         maskLevel (clearMask (setMasks masks r)) = 0 \<and>
         (\<exists>ops. issued (clearMask (setMasks masks r)) = issued r @ Save # ops @ [Restore] \<and>
                Save \<notin> set ops \<and> Restore \<notin> set ops) \<and>
         maskLevel (setMasks masks r)
           = 1 + length (filter (\<lambda>(m, invert). is_RoundRect m) (tl masks))"
proof -
  let ?b = "backBufferContext2D r"
  obtain m invert rest where masks: "masks = (m, invert) # rest"
    using assms(2) by (cases masks) auto
  obtain ops1 where
    first: "setMask m invert r = Inr ((invoke_all ?b (Save # ops1) r)\<lparr>maskLevel := 1\<rparr>)"
    and ops1: "Save \<notin> set ops1" "Restore \<notin> set ops1"
    using setMask_first [OF assms(1)] by blast
  let ?r1 = "(invoke_all ?b (Save # ops1) r)\<lparr>maskLevel := 1\<rparr>"
  let ?n = "1 + length (filter (\<lambda>(m, invert). is_RoundRect m) rest)"
  have "0 < maskLevel ?r1" by simp
  then obtain ops2 where
    nested: "setMasks rest ?r1 =
        (invoke_all (backBufferContext2D ?r1) ops2 ?r1)
          \<lparr>maskLevel := maskLevel ?r1 + length (filter (\<lambda>(m, invert). is_RoundRect m) rest)\<rparr>"
    and ops2: "Save \<notin> set ops2" "Restore \<notin> set ops2"
    using setMasks_nested [of ?r1 rest] by blast
  let ?ops = "ops1 @ ops2"
  let ?r' = "(invoke_all ?b (Save # ?ops) r)\<lparr>maskLevel := ?n\<rparr>"
  have run: "setMasks masks r = ?r'"
    using first nested
    by (simp add: masks state_after_def invoke_all_append invoke_all_maskLevel_update
        del: invoke_all.simps)
      (simp add: invoke_all_append [symmetric] del: invoke_all.simps)
  have level: "maskLevel ?r' = ?n" by simp
  have "invoke_all ?b (Save # ?ops @ [Restore]) r = invoke ?b Restore (invoke_all ?b (Save # ?ops) r)"
    using invoke_all_append [of ?b "Save # ?ops" "[Restore]" r] by simp
  then have cleared:
    "clearMask ?r' = (invoke_all ?b (Save # ?ops @ [Restore]) r)\<lparr>maskLevel := 0\<rparr>"
    by (simp add: clearMask_def getContext_def invoke_maskLevel_update del: invoke_all.simps)
  have calls: "issued (clearMask ?r') = issued r @ Save # ?ops @ [Restore]"
    by (simp only: cleared issued_maskLevel_update) (simp add: issued_invoke_all del: invoke_all.simps)
  obtain snapshot where pushed: "saved (surfaces (invoke ?b Save r) ?b) = snapshot # save_stack r"
    using saved_invoke_Save [of ?b r] by (auto simp: save_stack_def)
  have "saved (surfaces (invoke_all ?b ?ops (invoke ?b Save r)) ?b) = snapshot # save_stack r"
    using ops1 ops2 pushed by (simp add: saved_invoke_all_other)
  then have "saved (surfaces (invoke ?b Restore (invoke_all ?b ?ops (invoke ?b Save r))) ?b)
      = save_stack r"
    by (rule saved_invoke_Restore)
  then have stack: "save_stack (clearMask ?r') = save_stack r"
    by (simp only: cleared) (simp add: save_stack_def invoke_all_append)
  have "Save \<notin> set ?ops \<and> Restore \<notin> set ?ops" using ops1 ops2 by simp
  with calls have "\<exists>ops. issued (clearMask ?r') = issued r @ Save # ops @ [Restore] \<and>
      Save \<notin> set ops \<and> Restore \<notin> set ops" by blast
  moreover have "maskLevel (clearMask ?r') = 0" by (simp only: cleared) simp
  moreover have "maskLevel (setMasks masks r)
      = 1 + length (filter (\<lambda>(m, invert). is_RoundRect m) (tl masks))"
    by (simp only: run) (simp add: masks)
  ultimately show ?thesis using stack by (simp only: run)
qed

theorem setMask_nesting_net_zero_witness:
  "save_stack (clearMask (setMasks
       [(Rect 0 0 10 10, False), (RoundRect 1 2 8 6 2, True), (Ellipse (5, 5) (2, 2), False),
        (RoundRect 2 3 4 4 1, False)]
       example_renderer)) = [] \<and>
   maskLevel (clearMask (setMasks
       [(Rect 0 0 10 10, False), (RoundRect 1 2 8 6 2, True), (Ellipse (5, 5) (2, 2), False),
        (RoundRect 2 3 4 4 1, False)]
       example_renderer)) = 0 \<and>
   maskLevel (setMasks
       [(Rect 0 0 10 10, False), (RoundRect 1 2 8 6 2, True), (Ellipse (5, 5) (2, 2), False),
        (RoundRect 2 3 4 4 1, False)]
       example_renderer) = 3"
proof -
  let ?masks = "[(Rect 0 0 10 10, False), (RoundRect 1 2 8 6 2, True),
    (Ellipse (5, 5) (2, 2), False), (RoundRect 2 3 4 4 1, False)]"
  have level: "maskLevel example_renderer = 0" by (simp add: example_renderer_def)
  have nonempty: "?masks \<noteq> []" by simp
  have stack: "save_stack example_renderer = []"
    by (simp add: save_stack_def example_renderer_def fresh_context_def)
  have returned: "1 + length (filter (\<lambda>(m, invert). is_RoundRect m) (tl ?masks)) = 3"
    by (simp add: is_RoundRect_def)
  show ?thesis
    using setMask_nesting_net_zero [OF level nonempty] stack returned by simp
qed

end
